theory Spec2Isabelle
  imports Main
begin

section \<open>Data model (casino/types.ts, database/schema.sql)\<close>

text \<open>
  The Casino side of the integration keeps three tables that the money-moving
  callbacks read and write: \<open>casino_wallets\<close>, \<open>casino_game_sessions\<close> and
  \<open>casino_transactions\<close>. A table is the list of its rows; the ledger is kept in
  insertion order (a new row is appended at the end). Row identifiers, tokens and
  external transaction ids are strings. Amounts and balances are the BIGINT columns
  of the schema, modelled as unbounded integers (minor units): the service's
  arithmetic on them is taken as exact, which JavaScript numbers are on integers up
  to \<open>2^53\<close>. Timestamps are left out. Requests are handled one after the other;
  the interleaving of concurrent requests is not part of the model.
\<close>

datatype TransactionType = Debit | Credit | Rollback

text \<open>JSON values, for \<open>response_cache\<close> and for the HTTP response bodies.\<close>

datatype json = JNull | JBool bool | JNum int | JStr string | JObj "(string \<times> json) list"

record CasinoWallet =
  w_id :: string
  w_user_id :: string
  currency_code :: string
  playable_balance :: int
  redeemable_balance :: int

record CasinoGameSession =
  s_id :: string
  token :: string
  s_user_id :: string
  s_wallet_id :: string
  game_id :: string
  provider_session_id :: "string option"
  is_active :: bool

record CasinoTransaction =
  t_id :: string
  wallet_id :: string
  session_id :: "string option"
  transaction_type :: TransactionType
  amount :: int
  external_transaction_id :: string
  related_external_transaction_id :: "string option"
  balance_after :: int
  response_cache :: json
  is_rollback :: bool

record db =
  casino_wallets :: "CasinoWallet list"
  casino_game_sessions :: "CasinoGameSession list"
  casino_transactions :: "CasinoTransaction list"

text \<open>
  Errors as values. \<open>CasinoError message code statusCode\<close> is the class of
  casino/types.ts; \<open>DatabaseError constraint sqlstate\<close> is the error the store
  raises when a statement violates a constraint of schema.sql.
\<close>

datatype error =
    CasinoError string string nat
  | DatabaseError string string

section \<open>The store: queries and constraints\<close>

definition getWalletById :: "db \<Rightarrow> string \<Rightarrow> CasinoWallet option" where
  "getWalletById s walletId = find (\<lambda>w. w_id w = walletId) (casino_wallets s)"

definition getSessionByToken :: "db \<Rightarrow> string \<Rightarrow> CasinoGameSession option" where
  "getSessionByToken s tok =
     find (\<lambda>x. token x = tok \<and> is_active x) (casino_game_sessions s)"

definition getTransactionByExternalId :: "db \<Rightarrow> string \<Rightarrow> CasinoTransaction option" where
  "getTransactionByExternalId s externalId =
     find (\<lambda>t. external_transaction_id t = externalId) (casino_transactions s)"

text \<open>\<open>SELECT * FROM casino_transactions WHERE id = $1\<close>, first row.\<close>

definition getTransactionById :: "db \<Rightarrow> string \<Rightarrow> CasinoTransaction option" where
  "getTransactionById s txnId = find (\<lambda>t. t_id t = txnId) (casino_transactions s)"

text \<open>
  \<open>SELECT * FROM casino_transactions WHERE related_external_transaction_id = $1
  AND transaction_type = 'rollback'\<close>.
\<close>

definition rollbacksReferencing :: "db \<Rightarrow> string \<Rightarrow> CasinoTransaction list" where
  "rollbacksReferencing s originalTransactionId =
     filter (\<lambda>t. related_external_transaction_id t = Some originalTransactionId
                 \<and> transaction_type t = Rollback) (casino_transactions s)"

text \<open>
  \<open>UPDATE casino_wallets SET playable_balance = $1 WHERE id = $2\<close>. The schema's
  \<open>CHECK (playable_balance >= 0)\<close> rejects the statement when a row would receive a
  negative balance.
\<close>

definition update_playable_balance :: "string \<Rightarrow> int \<Rightarrow> db \<Rightarrow> error + db" where
  "update_playable_balance walletId newBalance s =
     (if newBalance < 0 \<and> walletId \<in> set (map w_id (casino_wallets s))
      then Inl (DatabaseError ''positive_playable_balance'' ''23514'')
      else Inr (s\<lparr>casino_wallets :=
             map (\<lambda>w. if w_id w = walletId then w\<lparr>playable_balance := newBalance\<rparr> else w)
                 (casino_wallets s)\<rparr>))"

text \<open>
  \<open>INSERT INTO casino_transactions ...\<close>. The schema makes \<open>id\<close> the primary key,
  \<open>external_transaction_id\<close> UNIQUE, and \<open>wallet_id\<close>, \<open>session_id\<close> foreign keys.
\<close>

definition insert_transaction :: "CasinoTransaction \<Rightarrow> db \<Rightarrow> error + db" where
  "insert_transaction t s =
     (if t_id t \<in> set (map t_id (casino_transactions s))
      then Inl (DatabaseError ''casino_transactions_pkey'' ''23505'')
      else if external_transaction_id t \<in> set (map external_transaction_id (casino_transactions s))
      then Inl (DatabaseError ''casino_transactions_external_transaction_id_key'' ''23505'')
      else if wallet_id t \<notin> set (map w_id (casino_wallets s))
      then Inl (DatabaseError ''casino_transactions_wallet_id_fkey'' ''23503'')
      else if (case session_id t of None \<Rightarrow> False
               | Some sid \<Rightarrow> sid \<notin> set (map s_id (casino_game_sessions s)))
      then Inl (DatabaseError ''casino_transactions_session_id_fkey'' ''23503'')
      else Inr (s\<lparr>casino_transactions := casino_transactions s @ [t]\<rparr>))"

text \<open>\<open>UPDATE casino_transactions SET is_rollback = true WHERE id = $1\<close>.\<close>

definition set_is_rollback :: "string \<Rightarrow> db \<Rightarrow> db" where
  "set_is_rollback txnId s =
     s\<lparr>casino_transactions :=
         map (\<lambda>t. if t_id t = txnId then t\<lparr>is_rollback := True\<rparr> else t)
             (casino_transactions s)\<rparr>"

text \<open>
  Modelled from the spec: the helper \<open>transaction\<close> of database/connection.ts is not
  among the sources. The specification describes it as opening a database
  transaction around the callback, committing when the callback returns and
  aborting (nothing of the callback's writes is kept) when it throws; the error is
  passed on to the caller.
\<close>

definition transaction :: "(db \<Rightarrow> error + ('a \<times> db)) \<Rightarrow> db \<Rightarrow> (error + 'a) \<times> db" where
  "transaction body s =
     (case body s of
        Inl e \<Rightarrow> (Inl e, s)
      | Inr (r, s') \<Rightarrow> (Inr r, s'))"

section \<open>JavaScript operators used by the service\<close>

text \<open>
  \<open>Number(wallet?.playable_balance || fallback)\<close>, with the field typed \<open>number\<close> as
  in casino/types.ts: a missing wallet and a balance of 0 are both falsy. (Were the
  column delivered as a string, \<open>"0"\<close> would be truthy; the two readings differ
  only in the balance reported for a wallet that stands at 0, on which none of the
  theorems below depends.)
\<close>

definition balance_or :: "CasinoWallet option \<Rightarrow> int \<Rightarrow> int" where
  "balance_or wallet fallback =
     (case wallet of
        None \<Rightarrow> fallback
      | Some w \<Rightarrow> if playable_balance w = 0 then fallback else playable_balance w)"

text \<open>\<open>wallet?.currency_code || 'USD'\<close>.\<close>

definition currency_or_USD :: "CasinoWallet option \<Rightarrow> string" where
  "currency_or_USD wallet =
     (case wallet of
        None \<Rightarrow> ''USD''
      | Some w \<Rightarrow> if currency_code w = [] then ''USD'' else currency_code w)"

section \<open>CasinoService (casino/service.ts)\<close>

record MoneyResult =
  mr_transaction :: "CasinoTransaction option"
  mr_balance :: int
  mr_currency :: string
  isDuplicate :: bool

record RollbackResult =
  rr_transaction :: "CasinoTransaction option"
  rr_balance :: int
  rr_currency :: string
  rolledBack :: bool
  message :: string

text \<open>
  \<open>processDebit\<close>. The last argument \<open>txnId\<close> is the value \<open>uuidv4()\<close> returns for
  the new ledger row.
\<close>

definition processDebit ::
  "db \<Rightarrow> string \<Rightarrow> string \<Rightarrow> string \<Rightarrow> int \<Rightarrow> string \<Rightarrow> (error + MoneyResult) \<times> db" where
  "processDebit s sessionToken transactionId roundId amt txnId =
     (case getTransactionByExternalId s transactionId of
        Some existing \<Rightarrow>
          (let wallet = getWalletById s (wallet_id existing) in
           (Inr \<lparr>mr_transaction = Some existing,
                 mr_balance = balance_or wallet (balance_after existing),
                 mr_currency = currency_or_USD wallet,
                 isDuplicate = True\<rparr>, s))
      | None \<Rightarrow>
          (case getSessionByToken s sessionToken of
             None \<Rightarrow> (Inl (CasinoError ''Invalid or expired session'' ''INVALID_SESSION'' 401), s)
           | Some session \<Rightarrow>
               if amt \<le> 0
               then (Inl (CasinoError ''Amount must be positive'' ''INVALID_AMOUNT'' 400), s)
               else transaction (\<lambda>c.
                 case getWalletById c (s_wallet_id session) of
                   None \<Rightarrow> Inl (CasinoError ''Wallet not found'' ''WALLET_ERROR'' 500)
                 | Some wallet \<Rightarrow>
                     if playable_balance wallet < amt
                     then Inl (CasinoError ''Insufficient funds'' ''INSUFFICIENT_FUNDS'' 400)
                     else
                       (let newBalance = playable_balance wallet - amt in
                        case update_playable_balance (w_id wallet) newBalance c of
                          Inl e \<Rightarrow> Inl e
                        | Inr c1 \<Rightarrow>
                            (case insert_transaction
                                \<lparr>t_id = txnId, wallet_id = w_id wallet,
                                 session_id = Some (s_id session),
                                 transaction_type = Debit, amount = amt,
                                 external_transaction_id = transactionId,
                                 related_external_transaction_id = None,
                                 balance_after = newBalance,
                                 response_cache = JObj
                                   [(''success'', JBool True),
                                    (''transactionId'', JStr transactionId),
                                    (''balance'', JNum newBalance),
                                    (''currency'', JStr (currency_code wallet))],
                                 is_rollback = False\<rparr> c1 of
                               Inl e \<Rightarrow> Inl e
                             | Inr c2 \<Rightarrow>
                                 Inr (\<lparr>mr_transaction = getTransactionById c2 txnId,
                                       mr_balance = newBalance,
                                       mr_currency = currency_code wallet,
                                       isDuplicate = False\<rparr>, c2)))) s))"

text \<open>
  \<open>processCredit\<close>. \<open>relatedTransactionId || null\<close> stores null for a missing or
  empty related id.
\<close>

definition processCredit ::
  "db \<Rightarrow> string \<Rightarrow> string \<Rightarrow> string \<Rightarrow> int \<Rightarrow> string option \<Rightarrow> string
     \<Rightarrow> (error + MoneyResult) \<times> db" where
  "processCredit s sessionToken transactionId roundId amt relatedTransactionId txnId =
     (case getTransactionByExternalId s transactionId of
        Some existing \<Rightarrow>
          (let wallet = getWalletById s (wallet_id existing) in
           (Inr \<lparr>mr_transaction = Some existing,
                 mr_balance = balance_or wallet (balance_after existing),
                 mr_currency = currency_or_USD wallet,
                 isDuplicate = True\<rparr>, s))
      | None \<Rightarrow>
          (case getSessionByToken s sessionToken of
             None \<Rightarrow> (Inl (CasinoError ''Invalid or expired session'' ''INVALID_SESSION'' 401), s)
           | Some session \<Rightarrow>
               if amt < 0
               then (Inl (CasinoError ''Amount cannot be negative'' ''INVALID_AMOUNT'' 400), s)
               else transaction (\<lambda>c.
                 case getWalletById c (s_wallet_id session) of
                   None \<Rightarrow> Inl (CasinoError ''Wallet not found'' ''WALLET_ERROR'' 500)
                 | Some wallet \<Rightarrow>
                     (let newBalance = playable_balance wallet + amt in
                      case update_playable_balance (w_id wallet) newBalance c of
                        Inl e \<Rightarrow> Inl e
                      | Inr c1 \<Rightarrow>
                          (case insert_transaction
                              \<lparr>t_id = txnId, wallet_id = w_id wallet,
                               session_id = Some (s_id session),
                               transaction_type = Credit, amount = amt,
                               external_transaction_id = transactionId,
                               related_external_transaction_id =
                                 (case relatedTransactionId of
                                    None \<Rightarrow> None
                                  | Some r \<Rightarrow> if r = [] then None else Some r),
                               balance_after = newBalance,
                               response_cache = JObj
                                 [(''success'', JBool True),
                                  (''transactionId'', JStr transactionId),
                                  (''balance'', JNum newBalance),
                                  (''currency'', JStr (currency_code wallet))],
                               is_rollback = False\<rparr> c1 of
                             Inl e \<Rightarrow> Inl e
                           | Inr c2 \<Rightarrow>
                               Inr (\<lparr>mr_transaction = getTransactionById c2 txnId,
                                     mr_balance = newBalance,
                                     mr_currency = currency_code wallet,
                                     isDuplicate = False\<rparr>, c2)))) s))"

text \<open>
  \<open>processRollback\<close>. The checks are evaluated in the order of the source: the
  rollback's own id, the original's lookup (tombstone when absent), the original's
  \<open>is_rollback\<close> flag, an existing rollback entry naming the original, the
  original's kind, and last the reversal inside a database transaction. The response
  cache of a reversal carries \<open>reason\<close> only when one was given
  (\<open>JSON.stringify\<close> drops an undefined field).
\<close>

definition processRollback ::
  "db \<Rightarrow> string \<Rightarrow> string \<Rightarrow> string \<Rightarrow> string option \<Rightarrow> string
     \<Rightarrow> (error + RollbackResult) \<times> db" where
  "processRollback s sessionToken transactionId originalTransactionId reason txnId =
     (case getTransactionByExternalId s transactionId of
        Some existingRollback \<Rightarrow>
          (let wallet = getWalletById s (wallet_id existingRollback) in
           (Inr \<lparr>rr_transaction = Some existingRollback,
                 rr_balance = balance_or wallet (balance_after existingRollback),
                 rr_currency = currency_or_USD wallet,
                 rolledBack = True,
                 message = ''Rollback already processed (idempotent response)''\<rparr>, s))
      | None \<Rightarrow>
          (case getTransactionByExternalId s originalTransactionId of
             None \<Rightarrow>
               (case getSessionByToken s sessionToken of
                  None \<Rightarrow>
                    (Inl (CasinoError ''Invalid or expired session'' ''INVALID_SESSION'' 401), s)
                | Some session \<Rightarrow>
                    (case getWalletById s (s_wallet_id session) of
                       None \<Rightarrow> (Inl (CasinoError ''Wallet not found'' ''WALLET_ERROR'' 500), s)
                     | Some wallet \<Rightarrow>
                         (case insert_transaction
                             \<lparr>t_id = txnId, wallet_id = w_id wallet,
                              session_id = Some (s_id session),
                              transaction_type = Rollback, amount = 0,
                              external_transaction_id = transactionId,
                              related_external_transaction_id = Some originalTransactionId,
                              balance_after = playable_balance wallet,
                              response_cache = JObj
                                [(''tombstone'', JBool True),
                                 (''reason'', JStr ''Original transaction not found'')],
                              is_rollback = True\<rparr> s of
                            Inl e \<Rightarrow> (Inl e, s)
                          | Inr s1 \<Rightarrow>
                              (Inr \<lparr>rr_transaction = None,
                                    rr_balance = playable_balance wallet,
                                    rr_currency = currency_code wallet,
                                    rolledBack = True,
                                    message = ''Tombstone recorded - original transaction not found, no balance change''\<rparr>,
                               s1))))
           | Some originalTxn \<Rightarrow>
               if is_rollback originalTxn
               then
                 (let wallet = getWalletById s (wallet_id originalTxn) in
                  (Inr \<lparr>rr_transaction = None,
                        rr_balance = balance_or wallet 0,
                        rr_currency = currency_or_USD wallet,
                        rolledBack = False,
                        message = ''Cannot rollback a rollback transaction''\<rparr>, s))
               else if rollbacksReferencing s originalTransactionId \<noteq> []
               then
                 (let wallet = getWalletById s (wallet_id originalTxn) in
                  case insert_transaction
                      \<lparr>t_id = txnId, wallet_id = wallet_id originalTxn,
                       session_id = session_id originalTxn,
                       transaction_type = Rollback, amount = 0,
                       external_transaction_id = transactionId,
                       related_external_transaction_id = Some originalTransactionId,
                       balance_after = balance_or wallet 0,
                       response_cache = JObj [(''alreadyRolledBack'', JBool True)],
                       is_rollback = True\<rparr> s of
                    Inl e \<Rightarrow> (Inl e, s)
                  | Inr s1 \<Rightarrow>
                      (Inr \<lparr>rr_transaction = None,
                            rr_balance = balance_or wallet 0,
                            rr_currency = currency_or_USD wallet,
                            rolledBack = True,
                            message = ''Transaction was already rolled back''\<rparr>, s1))
               else if transaction_type originalTxn = Credit
               then (Inl (CasinoError ''Payouts/credits cannot be rolled back''
                            ''CANNOT_ROLLBACK_PAYOUT'' 400), s)
               else transaction (\<lambda>c.
                 case getWalletById c (wallet_id originalTxn) of
                   None \<Rightarrow> Inl (CasinoError ''Wallet not found'' ''WALLET_ERROR'' 500)
                 | Some wallet \<Rightarrow>
                     (let newBalance = playable_balance wallet + amount originalTxn in
                      case update_playable_balance (w_id wallet) newBalance c of
                        Inl e \<Rightarrow> Inl e
                      | Inr c1 \<Rightarrow>
                          (case insert_transaction
                              \<lparr>t_id = txnId, wallet_id = w_id wallet,
                               session_id = session_id originalTxn,
                               transaction_type = Rollback, amount = amount originalTxn,
                               external_transaction_id = transactionId,
                               related_external_transaction_id = Some originalTransactionId,
                               balance_after = newBalance,
                               response_cache = JObj
                                 ([(''success'', JBool True),
                                   (''transactionId'', JStr transactionId),
                                   (''originalTransactionId'', JStr originalTransactionId),
                                   (''balance'', JNum newBalance),
                                   (''currency'', JStr (currency_code wallet))]
                                  @ (case reason of None \<Rightarrow> []
                                     | Some r \<Rightarrow> [(''reason'', JStr r)])),
                               is_rollback = True\<rparr>
                              (set_is_rollback (t_id originalTxn) c1) of
                             Inl e \<Rightarrow> Inl e
                           | Inr c2 \<Rightarrow>
                               Inr (\<lparr>rr_transaction = getTransactionById c2 txnId,
                                     rr_balance = newBalance,
                                     rr_currency = currency_code wallet,
                                     rolledBack = True,
                                     message = ''Transaction successfully rolled back''\<rparr>,
                                    c2)))) s))"

section \<open>Callback surface (casino/routes.ts, shared/middleware.ts)\<close>

text \<open>
  \<open>errorHandler\<close>: \<open>err.statusCode || 500\<close>, \<open>err.code || 'INTERNAL_ERROR'\<close>,
  \<open>err.message || 'An unexpected error occurred'\<close>. A store error has an SQLSTATE
  code and no status code.
\<close>

definition error_body :: "string \<Rightarrow> string \<Rightarrow> json" where
  "error_body msg code =
     JObj [(''success'', JBool False),
           (''error'', JStr (if msg = [] then ''An unexpected error occurred'' else msg)),
           (''code'', JStr (if code = [] then ''INTERNAL_ERROR'' else code))]"

fun errorHandler :: "error \<Rightarrow> nat \<times> json" where
  "errorHandler (CasinoError msg code statusCode) =
     (if statusCode = 0 then 500 else statusCode, error_body msg code)"
| "errorHandler (DatabaseError msg code) = (500, error_body msg code)"

text \<open>
  The handlers behind the signature gate. A request field that is absent or the empty
  string is falsy; \<open>amount\<close> is only required to be present.
\<close>

definition money_body :: "string \<Rightarrow> MoneyResult \<Rightarrow> json" where
  "money_body transactionId result =
     JObj [(''success'', JBool True),
           (''transactionId'', JStr transactionId),
           (''balance'', JNum (mr_balance result)),
           (''currency'', JStr (mr_currency result))]"

definition debit_route ::
  "db \<Rightarrow> string \<Rightarrow> string \<Rightarrow> string \<Rightarrow> int option \<Rightarrow> string \<Rightarrow> (nat \<times> json) \<times> db" where
  "debit_route s sessionToken transactionId roundId amt txnId =
     (case amt of
        None \<Rightarrow>
          ((400, JObj [(''success'', JBool False),
                       (''error'', JStr ''sessionToken, transactionId, roundId, and amount are required'')]), s)
      | Some a \<Rightarrow>
          if sessionToken = [] \<or> transactionId = [] \<or> roundId = []
          then ((400, JObj [(''success'', JBool False),
                       (''error'', JStr ''sessionToken, transactionId, roundId, and amount are required'')]), s)
          else (case processDebit s sessionToken transactionId roundId a txnId of
                  (Inl err, s') \<Rightarrow> (errorHandler err, s')
                | (Inr result, s') \<Rightarrow> ((200, money_body transactionId result), s')))"

definition credit_route ::
  "db \<Rightarrow> string \<Rightarrow> string \<Rightarrow> string \<Rightarrow> int option \<Rightarrow> string option \<Rightarrow> string
     \<Rightarrow> (nat \<times> json) \<times> db" where
  "credit_route s sessionToken transactionId roundId amt relatedTransactionId txnId =
     (case amt of
        None \<Rightarrow>
          ((400, JObj [(''success'', JBool False),
                       (''error'', JStr ''sessionToken, transactionId, roundId, and amount are required'')]), s)
      | Some a \<Rightarrow>
          if sessionToken = [] \<or> transactionId = [] \<or> roundId = []
          then ((400, JObj [(''success'', JBool False),
                       (''error'', JStr ''sessionToken, transactionId, roundId, and amount are required'')]), s)
          else (case processCredit s sessionToken transactionId roundId a relatedTransactionId txnId of
                  (Inl err, s') \<Rightarrow> (errorHandler err, s')
                | (Inr result, s') \<Rightarrow> ((200, money_body transactionId result), s')))"

definition rollback_route ::
  "db \<Rightarrow> string \<Rightarrow> string \<Rightarrow> string \<Rightarrow> string option \<Rightarrow> string \<Rightarrow> (nat \<times> json) \<times> db" where
  "rollback_route s sessionToken transactionId originalTransactionId reason txnId =
     (if sessionToken = [] \<or> transactionId = [] \<or> originalTransactionId = []
      then ((400, JObj [(''success'', JBool False),
                   (''error'', JStr ''sessionToken, transactionId, and originalTransactionId are required'')]), s)
      else (case processRollback s sessionToken transactionId originalTransactionId reason txnId of
              (Inl err, s') \<Rightarrow> (errorHandler err, s')
            | (Inr result, s') \<Rightarrow>
                ((200, JObj [(''success'', JBool True),
                             (''transactionId'', JStr transactionId),
                             (''rolledBack'', JBool (rolledBack result)),
                             (''balance'', JNum (rr_balance result)),
                             (''currency'', JStr (rr_currency result)),
                             (''message'', JStr (message result))]), s')))"

section \<open>Sequences of callbacks\<close>

text \<open>
  A money-moving request together with the row id drawn for it. \<open>apply_request\<close> is
  the committed state after the service handled the request; \<open>run\<close> handles a
  sequence of requests one after the other.
\<close>

datatype request =
    DebitRequest string string string int string
  | CreditRequest string string string int "string option" string
  | RollbackRequest string string string "string option" string

fun apply_request :: "db \<Rightarrow> request \<Rightarrow> db" where
  "apply_request s (DebitRequest tok tid rid a u) = snd (processDebit s tok tid rid a u)"
| "apply_request s (CreditRequest tok tid rid a rel u) = snd (processCredit s tok tid rid a rel u)"
| "apply_request s (RollbackRequest tok tid orig reason u) =
     snd (processRollback s tok tid orig reason u)"

fun run :: "db \<Rightarrow> request list \<Rightarrow> db" where
  "run s [] = s"
| "run s (r # rs) = run (apply_request s r) rs"

section \<open>Properties of the ledger\<close>

text \<open>The schema's check constraint, as a property of a state.\<close>

definition wallets_nonneg :: "db \<Rightarrow> bool" where
  "wallets_nonneg s = list_all (\<lambda>w. 0 \<le> playable_balance w) (casino_wallets s)"

text \<open>
  The effect of an entry on its wallet: a debit takes its amount, a credit adds it, a
  rollback entry adds its amount (0 for a tombstone or a marker, the original's
  amount for a reversal).
\<close>

definition signed_amount :: "CasinoTransaction \<Rightarrow> int" where
  "signed_amount t =
     (case transaction_type t of
        Debit \<Rightarrow> - amount t
      | Credit \<Rightarrow> amount t
      | Rollback \<Rightarrow> amount t)"






section \<open>A seeded casino\<close>

text \<open>
  One player with a USD wallet of 10000 minor units, an active session on it and an
  empty ledger: the starting point of the specification's end-to-end scenarios.
\<close>

definition wallet0 :: CasinoWallet where
  "wallet0 = \<lparr>w_id = ''w1'', w_user_id = ''u1'', currency_code = ''USD'',
              playable_balance = 10000, redeemable_balance = 0\<rparr>"

definition session0 :: CasinoGameSession where
  "session0 = \<lparr>s_id = ''s1'', token = ''tok'', s_user_id = ''u1'', s_wallet_id = ''w1'',
               game_id = ''g1'', provider_session_id = None, is_active = True\<rparr>"

definition db0 :: db where
  "db0 = \<lparr>casino_wallets = [wallet0], casino_game_sessions = [session0],
          casino_transactions = []\<rparr>"

text \<open>States reached in the scenarios of the specification.\<close>

definition two_debits :: db where
  "two_debits = run db0 [DebitRequest ''tok'' ''t1'' ''rd'' 500 ''a1'',
                         DebitRequest ''tok'' ''t2'' ''rd'' 1000 ''a2'']"

definition debit_rolled_back :: db where
  "debit_rolled_back = run db0 [DebitRequest ''tok'' ''t1'' ''rd'' 2000 ''a1'',
                                RollbackRequest ''tok'' ''r1'' ''t1'' None ''a2'']"


definition simple_win :: db where
  "simple_win = run db0 [DebitRequest ''tok'' ''t1'' ''rd'' 1000 ''a1'',
                         CreditRequest ''tok'' ''t2'' ''rd'' 2500 (Some ''t1'') ''a2'']"

definition bet_with_rollback :: "request list" where
  "bet_with_rollback =
     [DebitRequest ''tok'' ''t1'' ''rd'' 2000 ''a1'',
      DebitRequest ''tok'' ''t2'' ''rd'' 1000 ''a2'',
      CreditRequest ''tok'' ''c1'' ''rd'' 3000 (Some ''t2'') ''a3'',
      RollbackRequest ''tok'' ''r1'' ''t1'' None ''a4'']"

text \<open>The seeded casino after one bet of 2000: the ledger row of the bet and the state.\<close>

definition bet_entry :: CasinoTransaction where
  "bet_entry = \<lparr>t_id = ''a1'', wallet_id = ''w1'', session_id = Some ''s1'',
                transaction_type = Debit, amount = 2000, external_transaction_id = ''t1'',
                related_external_transaction_id = None, balance_after = 8000,
                response_cache = JObj [(''success'', JBool True), (''transactionId'', JStr ''t1''),
                                       (''balance'', JNum 8000), (''currency'', JStr ''USD'')],
                is_rollback = False\<rparr>"

definition after_bet :: db where
  "after_bet = \<lparr>casino_wallets = [wallet0\<lparr>playable_balance := 8000\<rparr>],
                casino_game_sessions = [session0],
                casino_transactions = [bet_entry]\<rparr>"


section \<open>The effect of a committed write\<close>

text \<open>
  Every callback that changes the state appends exactly one ledger entry \<open>t\<close>. The
  older entries keep their wallet, balance and signed amount (a reversal only flags
  an entry that is not a credit); the wallet of \<open>t\<close> ends on \<open>balance_after t\<close>,
  which is its former balance plus the signed amount of \<open>t\<close>; no other wallet moves.
\<close>

definition ledger_step :: "db \<Rightarrow> db \<Rightarrow> bool" where
  "ledger_step s s' \<longleftrightarrow>
     (\<exists>t f w w'.
        casino_transactions s' = map f (casino_transactions s) @ [t] \<and>
        (\<forall>x. f x = x \<or>
             (f x = x\<lparr>is_rollback := True\<rparr> \<and>
              (\<exists>orig. orig \<in> set (casino_transactions s) \<and> t_id orig = t_id x
                    \<and> transaction_type orig \<noteq> Credit))) \<and>
        t_id t \<notin> set (map t_id (casino_transactions s)) \<and>
        external_transaction_id t \<notin> set (map external_transaction_id (casino_transactions s)) \<and>
        (transaction_type t = Credit \<longrightarrow> \<not> is_rollback t) \<and>
        getWalletById s (wallet_id t) = Some w \<and>
        getWalletById s' (wallet_id t) = Some w' \<and>
        playable_balance w' = balance_after t \<and>
        balance_after t = playable_balance w + signed_amount t \<and>
        (\<forall>wid. wid \<noteq> wallet_id t \<longrightarrow> getWalletById s' wid = getWalletById s wid) \<and>
        (wallets_nonneg s \<longrightarrow> wallets_nonneg s'))"


text \<open>Row ids are unique (the primary key) and no credit entry carries the rollback flag.\<close>

definition credits_unflagged :: "db \<Rightarrow> bool" where
  "credits_unflagged s \<longleftrightarrow>
     distinct (map t_id (casino_transactions s)) \<and>
     list_all (\<lambda>t. transaction_type t \<noteq> Credit \<or> \<not> is_rollback t) (casino_transactions s)"

section \<open>Lemmas about the store\<close>


lemma getWalletById_w_id: "getWalletById s wid = Some w \<Longrightarrow> w_id w = wid"
  unfolding getWalletById_def by (auto simp: find_Some_iff)

lemma getWalletById_None:
  "getWalletById s wid = None \<longleftrightarrow> wid \<notin> set (map w_id (casino_wallets s))"
  unfolding getWalletById_def by (auto simp: find_None_iff)

lemma getWalletById_mem_ids:
  "getWalletById s wid = Some w \<Longrightarrow> w_id w \<in> set (map w_id (casino_wallets s))"
  unfolding getWalletById_def by (auto simp: find_Some_iff)

lemma getSessionByToken_mem:
  "getSessionByToken s tok = Some x \<Longrightarrow> s_id x \<in> set (map s_id (casino_game_sessions s))"
  unfolding getSessionByToken_def by (auto simp: find_Some_iff)

lemma getTransactionByExternalId_None:
  "getTransactionByExternalId s e = None
     \<longleftrightarrow> e \<notin> set (map external_transaction_id (casino_transactions s))"
  unfolding getTransactionByExternalId_def by (auto simp: find_None_iff)

lemma getTransactionByExternalId_mem:
  "getTransactionByExternalId s e = Some t \<Longrightarrow>
     t \<in> set (casino_transactions s) \<and> external_transaction_id t = e"
  unfolding getTransactionByExternalId_def by (auto simp: find_Some_iff)



lemma getWalletById_update:
  "getWalletById (s\<lparr>casino_wallets :=
       map (\<lambda>w. if w_id w = wid then w\<lparr>playable_balance := nb\<rparr> else w) (casino_wallets s)\<rparr>) wid' =
   (if wid' = wid then map_option (\<lambda>w. w\<lparr>playable_balance := nb\<rparr>) (getWalletById s wid)
    else getWalletById s wid')"
proof -
  have "find (\<lambda>w. w_id w = wid')
          (map (\<lambda>w. if w_id w = wid then w\<lparr>playable_balance := nb\<rparr> else w) ws) =
        (if wid' = wid
         then map_option (\<lambda>w. w\<lparr>playable_balance := nb\<rparr>) (find (\<lambda>w. w_id w = wid) ws)
         else find (\<lambda>w. w_id w = wid') ws)" for ws
    by (induction ws) auto
  from this[of "casino_wallets s"] show ?thesis by (simp add: getWalletById_def)
qed

lemma getWalletById_transactions_update [simp]:
  "getWalletById (s\<lparr>casino_transactions := ts\<rparr>) wid = getWalletById s wid"
  by (simp add: getWalletById_def)

lemma set_is_rollback_fields [simp]:
  "casino_wallets (set_is_rollback i s) = casino_wallets s"
  "casino_game_sessions (set_is_rollback i s) = casino_game_sessions s"
  "map t_id (casino_transactions (set_is_rollback i s)) = map t_id (casino_transactions s)"
  "map external_transaction_id (casino_transactions (set_is_rollback i s))
     = map external_transaction_id (casino_transactions s)"
  by (simp_all add: set_is_rollback_def o_def if_distrib cong: if_cong)

lemma getWalletById_set_is_rollback [simp]:
  "getWalletById (set_is_rollback i s) wid = getWalletById s wid"
  by (simp add: getWalletById_def)

lemma update_playable_balance_Inr:
  "update_playable_balance wid nb s = Inr s' \<Longrightarrow>
     s' = s\<lparr>casino_wallets :=
            map (\<lambda>w. if w_id w = wid then w\<lparr>playable_balance := nb\<rparr> else w) (casino_wallets s)\<rparr>
     \<and> (0 \<le> nb \<or> wid \<notin> set (map w_id (casino_wallets s)))"
  by (auto simp: update_playable_balance_def split: if_splits)

lemma insert_transaction_Inr:
  "insert_transaction t s = Inr s' \<Longrightarrow>
     s' = s\<lparr>casino_transactions := casino_transactions s @ [t]\<rparr>
     \<and> t_id t \<notin> set (map t_id (casino_transactions s))
     \<and> external_transaction_id t \<notin> set (map external_transaction_id (casino_transactions s))
     \<and> wallet_id t \<in> set (map w_id (casino_wallets s))"
  by (auto simp: insert_transaction_def split: if_splits)

lemma insert_transaction_ok:
  assumes "t_id t \<notin> set (map t_id (casino_transactions s))"
      and "getTransactionByExternalId s (external_transaction_id t) = None"
      and "wallet_id t \<in> set (map w_id (casino_wallets s))"
      and "case session_id t of None \<Rightarrow> True
           | Some sid \<Rightarrow> sid \<in> set (map s_id (casino_game_sessions s))"
  shows "insert_transaction t s = Inr (s\<lparr>casino_transactions := casino_transactions s @ [t]\<rparr>)"
  using assms
  by (auto simp: insert_transaction_def getTransactionByExternalId_None split: option.splits)

lemma nonneg_after_update:
  "wallets_nonneg s \<Longrightarrow> 0 \<le> nb \<or> wid \<notin> set (map w_id (casino_wallets s)) \<Longrightarrow>
   wallets_nonneg (s\<lparr>casino_wallets :=
            map (\<lambda>w. if w_id w = wid then w\<lparr>playable_balance := nb\<rparr> else w) (casino_wallets s)\<rparr>)"
  by (auto simp: wallets_nonneg_def list_all_iff)

lemma wallets_nonneg_transactions_update [simp]:
  "wallets_nonneg (s\<lparr>casino_transactions := ts\<rparr>) = wallets_nonneg s"
  by (simp add: wallets_nonneg_def)

lemma set_is_rollback_nonneg [simp]:
  "wallets_nonneg (set_is_rollback i s) = wallets_nonneg s"
  by (simp add: wallets_nonneg_def)

lemma signed_amount_is_rollback_update [simp]:
  "signed_amount (x\<lparr>is_rollback := b\<rparr>) = signed_amount x"
  by (simp add: signed_amount_def split: TransactionType.split)

section \<open>Every callback is a no-op or one ledger step\<close>

text \<open>A marker: an entry of amount zero, appended without a wallet update.\<close>

lemma marker_step:
  assumes w: "getWalletById s (wallet_id t) = Some w"
      and ins: "insert_transaction t s = Inr sa"
      and t: "signed_amount t = 0" "balance_after t = playable_balance w"
             "transaction_type t \<noteq> Credit"
  shows "ledger_step s sa"
proof -
  from ins have sa: "sa = s\<lparr>casino_transactions := casino_transactions s @ [t]\<rparr>"
    and new: "t_id t \<notin> set (map t_id (casino_transactions s))"
       "external_transaction_id t \<notin> set (map external_transaction_id (casino_transactions s))"
    using insert_transaction_Inr by blast+
  show ?thesis
    unfolding ledger_step_def
    apply (rule exI[of _ t], rule exI[of _ "\<lambda>x. x"], rule exI[of _ w], rule exI[of _ w])
    using w t new by (simp add: sa)
qed

text \<open>A balance movement: wallet update, optional flagging of an entry, ledger append.\<close>

lemma write_step:
  assumes w: "getWalletById s wid = Some w"
      and upd: "update_playable_balance wid nb s = Inr ca"
      and ins: "insert_transaction t cb = Inr cc"
      and cb: "cb = ca \<or>
               (cb = set_is_rollback i ca \<and>
                (\<exists>orig. orig \<in> set (casino_transactions s) \<and> t_id orig = i
                     \<and> transaction_type orig \<noteq> Credit))"
      and t: "wallet_id t = wid" "balance_after t = nb"
             "nb = playable_balance w + signed_amount t"
             "transaction_type t = Credit \<longrightarrow> \<not> is_rollback t"
  shows "ledger_step s cc"
proof -
  let ?upd = "\<lambda>w. if w_id w = wid then w\<lparr>playable_balance := nb\<rparr> else w"
  from upd have ca: "ca = s\<lparr>casino_wallets := map ?upd (casino_wallets s)\<rparr>"
    and nb: "0 \<le> nb \<or> wid \<notin> set (map w_id (casino_wallets s))"
    using update_playable_balance_Inr by blast+
  from ins have cc: "cc = cb\<lparr>casino_transactions := casino_transactions cb @ [t]\<rparr>"
    and new: "t_id t \<notin> set (map t_id (casino_transactions cb))"
       "external_transaction_id t \<notin> set (map external_transaction_id (casino_transactions cb))"
    using insert_transaction_Inr by blast+
  let ?f = "if cb = ca then (\<lambda>x. x)
            else (\<lambda>x. if t_id x = i then x\<lparr>is_rollback := True\<rparr> else x)"
  have txns: "casino_transactions cc = map ?f (casino_transactions s) @ [t]"
    using cb by (auto simp: cc ca set_is_rollback_def)
  have f: "\<forall>x. ?f x = x \<or>
             (?f x = x\<lparr>is_rollback := True\<rparr> \<and>
              (\<exists>orig. orig \<in> set (casino_transactions s) \<and> t_id orig = t_id x
                    \<and> transaction_type orig \<noteq> Credit))"
    using cb by auto
  have ids: "map t_id (casino_transactions cb) = map t_id (casino_transactions s)"
    using cb by (auto simp: ca)
  have exts: "map external_transaction_id (casino_transactions cb)
      = map external_transaction_id (casino_transactions s)"
    using cb by (auto simp: ca)
  have new': "t_id t \<notin> set (map t_id (casino_transactions s))"
    "external_transaction_id t \<notin> set (map external_transaction_id (casino_transactions s))"
    using new unfolding ids exts by blast+
  have gw: "getWalletById cc wid' = getWalletById ca wid'" for wid'
    using cb by (auto simp: cc)
  have gwa: "getWalletById ca wid' =
      (if wid' = wid then Some (w\<lparr>playable_balance := nb\<rparr>) else getWalletById s wid')" for wid'
    using w by (simp add: ca getWalletById_update)
  have nn: "wallets_nonneg s \<longrightarrow> wallets_nonneg cc"
    using cb nb by (auto simp: cc ca nonneg_after_update)
  show ?thesis
    unfolding ledger_step_def
    apply (rule exI[of _ t], rule exI[of _ ?f], rule exI[of _ w],
           rule exI[of _ "w\<lparr>playable_balance := nb\<rparr>"])
    using txns f w t nn new' by (simp add: gw gwa)
qed

lemma processDebit_step:
  "snd (processDebit s tok tid rid a u) = s
   \<or> ledger_step s (snd (processDebit s tok tid rid a u))"
proof (cases "getTransactionByExternalId s tid")
  case (Some e)
  then show ?thesis by (simp add: processDebit_def Let_def)
next
  case fresh: None
  show ?thesis
  proof (cases "getSessionByToken s tok")
    case None
    with fresh show ?thesis by (simp add: processDebit_def)
  next
    case sess: (Some session)
    show ?thesis
    proof (cases "getWalletById s (s_wallet_id session)")
      case None
      with fresh sess show ?thesis by (simp add: processDebit_def transaction_def)
    next
      case w: (Some wallet)
      let ?nb = "playable_balance wallet - a"
      let ?t = "\<lparr>t_id = u, wallet_id = w_id wallet, session_id = Some (s_id session),
                 transaction_type = Debit, amount = a, external_transaction_id = tid,
                 related_external_transaction_id = None, balance_after = ?nb,
                 response_cache = JObj [(''success'', JBool True), (''transactionId'', JStr tid),
                    (''balance'', JNum ?nb), (''currency'', JStr (currency_code wallet))],
                 is_rollback = False\<rparr>"
      show ?thesis
      proof (cases "a \<le> 0 \<or> playable_balance wallet < a")
        case True
        with fresh sess w show ?thesis by (auto simp: processDebit_def transaction_def)
      next
        case False
        show ?thesis
        proof (cases "update_playable_balance (w_id wallet) ?nb s")
          case (Inl e)
          with fresh sess w False show ?thesis
            by (simp add: processDebit_def transaction_def Let_def)
        next
          case upd: (Inr c1)
          show ?thesis
          proof (cases "insert_transaction ?t c1")
            case (Inl e)
            with fresh sess w False upd show ?thesis
              by (simp add: processDebit_def transaction_def Let_def)
          next
            case ins: (Inr c2)
            have "snd (processDebit s tok tid rid a u) = c2"
              using fresh sess w False upd ins
              by (simp add: processDebit_def transaction_def Let_def)
            moreover have "ledger_step s c2"
              using w upd ins getWalletById_w_id[OF w]
              by (intro write_step[where t = ?t and ca = c1 and cb = c1
                      and wid = "w_id wallet" and w = wallet and nb = ?nb])
                 (simp_all add: signed_amount_def)
            ultimately show ?thesis by simp
          qed
        qed
      qed
    qed
  qed
qed

lemma processCredit_step:
  "snd (processCredit s tok tid rid a rel u) = s
   \<or> ledger_step s (snd (processCredit s tok tid rid a rel u))"
proof (cases "getTransactionByExternalId s tid")
  case (Some e)
  then show ?thesis by (simp add: processCredit_def Let_def)
next
  case fresh: None
  show ?thesis
  proof (cases "getSessionByToken s tok")
    case None
    with fresh show ?thesis by (simp add: processCredit_def)
  next
    case sess: (Some session)
    show ?thesis
    proof (cases "getWalletById s (s_wallet_id session)")
      case None
      with fresh sess show ?thesis by (simp add: processCredit_def transaction_def)
    next
      case w: (Some wallet)
      let ?nb = "playable_balance wallet + a"
      let ?t = "\<lparr>t_id = u, wallet_id = w_id wallet, session_id = Some (s_id session),
                 transaction_type = Credit, amount = a, external_transaction_id = tid,
                 related_external_transaction_id =
                   (case rel of None \<Rightarrow> None | Some r \<Rightarrow> if r = [] then None else Some r),
                 balance_after = ?nb,
                 response_cache = JObj [(''success'', JBool True), (''transactionId'', JStr tid),
                    (''balance'', JNum ?nb), (''currency'', JStr (currency_code wallet))],
                 is_rollback = False\<rparr>"
      show ?thesis
      proof (cases "a < 0")
        case True
        with fresh sess w show ?thesis by (simp add: processCredit_def)
      next
        case False
        show ?thesis
        proof (cases "update_playable_balance (w_id wallet) ?nb s")
          case (Inl e)
          with fresh sess w False show ?thesis
            by (simp add: processCredit_def transaction_def Let_def)
        next
          case upd: (Inr c1)
          show ?thesis
          proof (cases "insert_transaction ?t c1")
            case (Inl e)
            with fresh sess w False upd show ?thesis
              by (simp add: processCredit_def transaction_def Let_def)
          next
            case ins: (Inr c2)
            have "snd (processCredit s tok tid rid a rel u) = c2"
              using fresh sess w False upd ins
              by (simp add: processCredit_def transaction_def Let_def)
            moreover have "ledger_step s c2"
              using w upd ins getWalletById_w_id[OF w]
              by (intro write_step[where t = ?t and ca = c1 and cb = c1
                      and wid = "w_id wallet" and w = wallet and nb = ?nb])
                 (simp_all add: signed_amount_def)
            ultimately show ?thesis by simp
          qed
        qed
      qed
    qed
  qed
qed

lemma processRollback_step:
  "snd (processRollback s tok tid orig reason u) = s
   \<or> ledger_step s (snd (processRollback s tok tid orig reason u))"
proof (cases "getTransactionByExternalId s tid")
  case (Some e)
  then show ?thesis by (simp add: processRollback_def Let_def)
next
  case fresh: None
  show ?thesis
  proof (cases "getTransactionByExternalId s orig")
    case unknown: None
    show ?thesis
    proof (cases "getSessionByToken s tok")
      case None
      with fresh unknown show ?thesis by (simp add: processRollback_def)
    next
      case sess: (Some session)
      show ?thesis
      proof (cases "getWalletById s (s_wallet_id session)")
        case None
        with fresh unknown sess show ?thesis by (simp add: processRollback_def)
      next
        case w: (Some wallet)
        let ?t = "\<lparr>t_id = u, wallet_id = w_id wallet, session_id = Some (s_id session),
                   transaction_type = Rollback, amount = 0, external_transaction_id = tid,
                   related_external_transaction_id = Some orig,
                   balance_after = playable_balance wallet,
                   response_cache = JObj [(''tombstone'', JBool True),
                      (''reason'', JStr ''Original transaction not found'')],
                   is_rollback = True\<rparr>"
        show ?thesis
        proof (cases "insert_transaction ?t s")
          case (Inl e)
          with fresh unknown sess w show ?thesis by (simp add: processRollback_def)
        next
          case ins: (Inr s1)
          have "snd (processRollback s tok tid orig reason u) = s1"
            using fresh unknown sess w ins by (simp add: processRollback_def)
          moreover have "ledger_step s s1"
            using w ins getWalletById_w_id[OF w]
            by (intro marker_step[where t = ?t and w = wallet]) (simp_all add: signed_amount_def)
          ultimately show ?thesis by simp
        qed
      qed
    qed
  next
    case known: (Some originalTxn)
    show ?thesis
    proof (cases "is_rollback originalTxn")
      case True
      with fresh known show ?thesis by (simp add: processRollback_def Let_def)
    next
      case unflagged: False
      show ?thesis
      proof (cases "rollbacksReferencing s orig = []")
        case referenced: False
        let ?wallet = "getWalletById s (wallet_id originalTxn)"
        let ?t = "\<lparr>t_id = u, wallet_id = wallet_id originalTxn,
                   session_id = session_id originalTxn,
                   transaction_type = Rollback, amount = 0, external_transaction_id = tid,
                   related_external_transaction_id = Some orig,
                   balance_after = balance_or ?wallet 0,
                   response_cache = JObj [(''alreadyRolledBack'', JBool True)],
                   is_rollback = True\<rparr>"
        show ?thesis
        proof (cases "insert_transaction ?t s")
          case (Inl e)
          with fresh known unflagged referenced show ?thesis
            by (simp add: processRollback_def Let_def)
        next
          case ins: (Inr s1)
          have res: "snd (processRollback s tok tid orig reason u) = s1"
            using fresh known unflagged referenced ins by (simp add: processRollback_def Let_def)
          from ins have "wallet_id originalTxn \<in> set (map w_id (casino_wallets s))"
            using insert_transaction_Inr by fastforce
          then obtain wallet where w: "?wallet = Some wallet"
            using getWalletById_None[of s "wallet_id originalTxn"] by (cases ?wallet) auto
          have "ledger_step s s1"
            using w ins
            by (intro marker_step[where t = ?t and w = wallet])
               (simp_all add: signed_amount_def balance_or_def)
          with res show ?thesis by simp
        qed
      next
        case unreferenced: True
        show ?thesis
        proof (cases "transaction_type originalTxn = Credit")
          case True
          with fresh known unflagged unreferenced show ?thesis
            by (simp add: processRollback_def)
        next
          case notcredit: False
          show ?thesis
          proof (cases "getWalletById s (wallet_id originalTxn)")
            case None
            with fresh known unflagged unreferenced notcredit show ?thesis
              by (simp add: processRollback_def transaction_def)
          next
            case w: (Some wallet)
            let ?nb = "playable_balance wallet + amount originalTxn"
            let ?t = "\<lparr>t_id = u, wallet_id = w_id wallet, session_id = session_id originalTxn,
                       transaction_type = Rollback, amount = amount originalTxn,
                       external_transaction_id = tid,
                       related_external_transaction_id = Some orig,
                       balance_after = ?nb,
                       response_cache = JObj
                         ([(''success'', JBool True), (''transactionId'', JStr tid),
                           (''originalTransactionId'', JStr orig),
                           (''balance'', JNum ?nb),
                           (''currency'', JStr (currency_code wallet))]
                          @ (case reason of None \<Rightarrow> [] | Some r \<Rightarrow> [(''reason'', JStr r)])),
                       is_rollback = True\<rparr>"
            show ?thesis
            proof (cases "update_playable_balance (w_id wallet) ?nb s")
              case (Inl e)
              with fresh known unflagged unreferenced notcredit w show ?thesis
                by (simp add: processRollback_def transaction_def Let_def)
            next
              case upd: (Inr c1)
              show ?thesis
              proof (cases "insert_transaction ?t (set_is_rollback (t_id originalTxn) c1)")
                case (Inl e)
                with fresh known unflagged unreferenced notcredit w upd show ?thesis
                  by (simp add: processRollback_def transaction_def Let_def)
              next
                case ins: (Inr c2)
                have "snd (processRollback s tok tid orig reason u) = c2"
                  using fresh known unflagged unreferenced notcredit w upd ins
                  by (simp add: processRollback_def transaction_def Let_def)
                moreover have "\<exists>x. x \<in> set (casino_transactions s)
                    \<and> t_id x = t_id originalTxn \<and> transaction_type x \<noteq> Credit"
                  using getTransactionByExternalId_mem[OF known] notcredit by blast
                then have "ledger_step s c2"
                  using w upd ins getWalletById_w_id[OF w]
                  by (intro write_step[where t = ?t and ca = c1
                        and cb = "set_is_rollback (t_id originalTxn) c1"
                        and i = "t_id originalTxn" and wid = "w_id wallet"
                        and w = wallet and nb = ?nb])
                     (simp_all add: signed_amount_def)
                ultimately show ?thesis by simp
              qed
            qed
          qed
        qed
      qed
    qed
  qed
qed

lemma apply_request_step: "apply_request s r = s \<or> ledger_step s (apply_request s r)"
  by (cases r) (simp_all add: processDebit_step processCredit_step processRollback_step)

section \<open>Invariants of a ledger step\<close>






lemma apply_request_nonneg: "wallets_nonneg s \<Longrightarrow> wallets_nonneg (apply_request s r)"
  using apply_request_step[of s r] by (auto simp: ledger_step_def)

lemma run_nonneg: "wallets_nonneg s \<Longrightarrow> wallets_nonneg (run s rs)"
  by (induction rs arbitrary: s) (simp_all add: apply_request_nonneg)

text \<open>
  A credit entry never carries the rollback flag: it is inserted without it, and a
  reversal flags the row of its original only, which is not a credit.
\<close>

lemma ledger_step_credits_unflagged:
  assumes inv: "credits_unflagged s" and step: "ledger_step s s'"
  shows "credits_unflagged s'"
proof -
  from step obtain t f where
    txns: "casino_transactions s' = map f (casino_transactions s) @ [t]" and
    flag: "\<And>x. f x = x \<or>
             (f x = x\<lparr>is_rollback := True\<rparr> \<and>
              (\<exists>orig. orig \<in> set (casino_transactions s) \<and> t_id orig = t_id x
                    \<and> transaction_type orig \<noteq> Credit))" and
    new: "t_id t \<notin> set (map t_id (casino_transactions s))" and
    t: "transaction_type t = Credit \<longrightarrow> \<not> is_rollback t"
    unfolding ledger_step_def by blast
  from inv have d: "distinct (map t_id (casino_transactions s))"
    and u: "\<And>x. x \<in> set (casino_transactions s) \<Longrightarrow>
               transaction_type x \<noteq> Credit \<or> \<not> is_rollback x"
    by (auto simp: credits_unflagged_def list_all_iff)
  have tf: "t_id \<circ> f = t_id"
  proof
    fix x show "(t_id \<circ> f) x = t_id x" using flag[of x] by auto
  qed
  have "distinct (map t_id (casino_transactions s'))"
    using d new by (simp add: txns tf)
  moreover have "transaction_type (f x) \<noteq> Credit \<or> \<not> is_rollback (f x)"
    if x: "x \<in> set (casino_transactions s)" for x
  proof (cases "f x = x")
    case True
    with u[OF x] show ?thesis by simp
  next
    case False
    with flag[of x] obtain orig where fx: "f x = x\<lparr>is_rollback := True\<rparr>"
      and o: "orig \<in> set (casino_transactions s)" "t_id orig = t_id x"
         "transaction_type orig \<noteq> Credit"
      by blast
    from d x o(1,2) have "orig = x"
      by (meson distinct_map inj_onD)
    with o(3) fx show ?thesis by simp
  qed
  ultimately show ?thesis
    using t by (auto simp: credits_unflagged_def list_all_iff txns)
qed

lemma run_credits_unflagged: "credits_unflagged s \<Longrightarrow> credits_unflagged (run s rs)"
proof (induction rs arbitrary: s)
  case Nil
  then show ?case by simp
next
  case (Cons r rs)
  have "credits_unflagged (apply_request s r)"
    using apply_request_step[of s r] Cons.prems ledger_step_credits_unflagged by auto
  then show ?case by (simp add: Cons.IH)
qed

section \<open>Results of the single callbacks\<close>

lemmas eval_defs = processDebit_def processCredit_def processRollback_def transaction_def
  getTransactionByExternalId_def getSessionByToken_def getWalletById_def getTransactionById_def
  rollbacksReferencing_def update_playable_balance_def insert_transaction_def set_is_rollback_def
  balance_or_def currency_or_USD_def db0_def wallet0_def session0_def Let_def
  debit_route_def credit_route_def rollback_route_def money_body_def error_body_def






lemma processCredit_replay:
  "getTransactionByExternalId s transactionId = Some e \<Longrightarrow>
   processCredit s sessionToken transactionId roundId amt rel txnId =
     (Inr \<lparr>mr_transaction = Some e,
           mr_balance = balance_or (getWalletById s (wallet_id e)) (balance_after e),
           mr_currency = currency_or_USD (getWalletById s (wallet_id e)),
           isDuplicate = True\<rparr>, s)"
  by (simp add: processCredit_def Let_def)

text \<open>A rollback that names a flagged original answers \<open>rolledBack = false\<close> and writes nothing.\<close>

lemma processRollback_flagged_original:
  "getTransactionByExternalId s transactionId = None \<Longrightarrow>
   getTransactionByExternalId s originalTransactionId = Some originalTxn \<Longrightarrow>
   is_rollback originalTxn \<Longrightarrow>
   processRollback s sessionToken transactionId originalTransactionId reason txnId =
     (Inr \<lparr>rr_transaction = None,
           rr_balance = balance_or (getWalletById s (wallet_id originalTxn)) 0,
           rr_currency = currency_or_USD (getWalletById s (wallet_id originalTxn)),
           rolledBack = False,
           message = ''Cannot rollback a rollback transaction''\<rparr>, s)"
  by (simp add: processRollback_def Let_def)



section \<open>The claims\<close>

text \<open>
  Claim C1. A debit or credit whose external transaction id already has a ledger entry
  is expected to return the response stored in that entry's \<open>response_cache\<close>,
  whatever the wallet's balance is at replay time. The service does not read the
  cache: it answers with the wallet's current balance (\<open>processDebit_replay\<close>,
  \<open>processCredit_replay\<close>). With the seeded casino, after the debits \<open>t1\<close> of 500
  and \<open>t2\<close> of 1000, the replay of \<open>t1\<close> is answered with balance 8500 while the
  cache of \<open>t1\<close> holds the first answer, balance 9500. The state is left unchanged.
\<close>

theorem debit_replay_returns_live_balance:
  "debit_route two_debits ''tok'' ''t1'' ''rd'' (Some 500) ''a3''
     = ((200, JObj [(''success'', JBool True), (''transactionId'', JStr ''t1''),
                    (''balance'', JNum 8500), (''currency'', JStr ''USD'')]),
        two_debits)
   \<and> map_option response_cache (getTransactionByExternalId two_debits ''t1'')
     = Some (JObj [(''success'', JBool True), (''transactionId'', JStr ''t1''),
                   (''balance'', JNum 9500), (''currency'', JStr ''USD'')])"
  by (simp add: two_debits_def eval_defs)

text \<open>
  Claim C2. A second rollback (with an own id not seen before) of a debit that a
  rollback has already reversed is expected to insert a marker entry of amount 0 with
  \<open>alreadyRolledBack\<close> in its cache and to answer \<open>rolledBack = true\<close>. The reversal
  has set \<open>is_rollback\<close> on the debit, and the service tests that flag before it
  looks for rollback entries that name the original
  (\<open>processRollback_flagged_original\<close>): with the seeded casino, after the debit
  \<open>t1\<close> of 2000 and its rollback \<open>r1\<close>, the rollback \<open>r2\<close> of \<open>t1\<close> is answered
  \<open>rolledBack = false\<close>, "Cannot rollback a rollback transaction", and nothing is
  inserted.
\<close>

theorem second_rollback_of_reversed_debit:
  "processRollback debit_rolled_back ''tok'' ''r2'' ''t1'' None ''a3''
     = (Inr \<lparr>rr_transaction = None, rr_balance = 10000, rr_currency = ''USD'',
             rolledBack = False, message = ''Cannot rollback a rollback transaction''\<rparr>,
        debit_rolled_back)
   \<and> map_option is_rollback (getTransactionByExternalId debit_rolled_back ''t1'') = Some True
   \<and> map_option transaction_type (getTransactionByExternalId debit_rolled_back ''t1'')
       = Some Debit
   \<and> map_option amount (getTransactionByExternalId debit_rolled_back ''r1'') = Some 2000
   \<and> getTransactionByExternalId debit_rolled_back ''r2'' = None"
  by (simp add: debit_rolled_back_def eval_defs)

text \<open>
  Claim C3. Starting from wallets with non-negative playable balances, every state
  committed along a sequence of debit, credit and rollback requests has non-negative
  playable balances: the state after the first \<open>n\<close> requests of any sequence.
\<close>

theorem playable_balance_never_negative:
  "wallets_nonneg s \<Longrightarrow> wallets_nonneg (run s (take n rs))"
  by (rule run_nonneg)

theorem playable_balance_never_negative_witness:
  "wallets_nonneg db0 \<and> wallets_nonneg (run db0 (take 3 bet_with_rollback))"
proof -
  have h: "wallets_nonneg db0"
    by (simp add: wallets_nonneg_def db0_def wallet0_def)
  from playable_balance_never_negative[OF h] h show ?thesis by simp
qed






text \<open>
  Claim C6. A rollback with an own id not seen before, whose original id matches no
  ledger entry, sent on an active session whose wallet exists, leaves every wallet as
  it is and appends one rollback entry of amount 0 with \<open>is_rollback\<close> set,
  \<open>balance_after\<close> the wallet's current balance and \<open>tombstone: true\<close> in its response
  cache; the answer has \<open>rolledBack = true\<close>. The row id drawn for the entry is new.
\<close>

theorem rollback_tombstone:
  assumes fresh: "getTransactionByExternalId s transactionId = None"
      and unknown: "getTransactionByExternalId s originalTransactionId = None"
      and sess: "getSessionByToken s sessionToken = Some session"
      and w: "getWalletById s (s_wallet_id session) = Some wallet"
      and uuid: "txnId \<notin> set (map t_id (casino_transactions s))"
  shows "processRollback s sessionToken transactionId originalTransactionId reason txnId =
     (Inr \<lparr>rr_transaction = None, rr_balance = playable_balance wallet,
           rr_currency = currency_code wallet, rolledBack = True,
           message = ''Tombstone recorded - original transaction not found, no balance change''\<rparr>,
      s\<lparr>casino_transactions := casino_transactions s @
          [\<lparr>t_id = txnId, wallet_id = w_id wallet, session_id = Some (s_id session),
            transaction_type = Rollback, amount = 0,
            external_transaction_id = transactionId,
            related_external_transaction_id = Some originalTransactionId,
            balance_after = playable_balance wallet,
            response_cache = JObj [(''tombstone'', JBool True),
                                   (''reason'', JStr ''Original transaction not found'')],
            is_rollback = True\<rparr>]\<rparr>)"
proof -
  let ?t = "\<lparr>t_id = txnId, wallet_id = w_id wallet, session_id = Some (s_id session),
            transaction_type = Rollback, amount = 0,
            external_transaction_id = transactionId,
            related_external_transaction_id = Some originalTransactionId,
            balance_after = playable_balance wallet,
            response_cache = JObj [(''tombstone'', JBool True),
                                   (''reason'', JStr ''Original transaction not found'')],
            is_rollback = True\<rparr>"
  have "insert_transaction ?t s = Inr (s\<lparr>casino_transactions := casino_transactions s @ [?t]\<rparr>)"
    using fresh uuid getWalletById_mem_ids[OF w] getSessionByToken_mem[OF sess]
    by (intro insert_transaction_ok) simp_all
  with fresh unknown sess w show ?thesis
    by (simp add: processRollback_def)
qed

theorem rollback_tombstone_witness:
  "getTransactionByExternalId db0 ''r9'' = None
   \<and> getTransactionByExternalId db0 ''ghost'' = None
   \<and> processRollback db0 ''tok'' ''r9'' ''ghost'' None ''a1'' =
     (Inr \<lparr>rr_transaction = None, rr_balance = 10000,
           rr_currency = ''USD'', rolledBack = True,
           message = ''Tombstone recorded - original transaction not found, no balance change''\<rparr>,
      \<lparr>casino_wallets = [wallet0], casino_game_sessions = [session0],
       casino_transactions =
          [\<lparr>t_id = ''a1'', wallet_id = ''w1'', session_id = Some ''s1'',
            transaction_type = Rollback, amount = 0,
            external_transaction_id = ''r9'',
            related_external_transaction_id = Some ''ghost'',
            balance_after = 10000,
            response_cache = JObj [(''tombstone'', JBool True),
                                   (''reason'', JStr ''Original transaction not found'')],
            is_rollback = True\<rparr>]\<rparr>)"
proof -
  have fresh: "getTransactionByExternalId db0 ''r9'' = None"
    and unknown: "getTransactionByExternalId db0 ''ghost'' = None"
    by (simp_all add: eval_defs)
  have sess: "getSessionByToken db0 ''tok'' = Some session0"
    by (simp add: eval_defs)
  have w: "getWalletById db0 (s_wallet_id session0) = Some wallet0"
    by (simp add: eval_defs)
  have uuid: "''a1'' \<notin> set (map t_id (casino_transactions db0))"
    by (simp add: db0_def)
  from rollback_tombstone[OF fresh unknown sess w uuid, of None] fresh unknown
  show ?thesis by (simp add: db0_def wallet0_def session0_def)
qed

text \<open>
  Claim C7. A rollback with an own id not seen before, whose original is a credit
  entry that no rollback entry names, fails with \<open>CANNOT_ROLLBACK_PAYOUT\<close>, which the
  error handler turns into HTTP status 400; no entry is created and no balance
  changes. A credit entry never carries the rollback flag
  (\<open>run_credits_unflagged\<close>), which is the hypothesis \<open>unflagged\<close>.
\<close>

theorem rollback_of_credit_rejected:
  assumes fresh: "getTransactionByExternalId s transactionId = None"
      and orig: "getTransactionByExternalId s originalTransactionId = Some originalTxn"
      and kind: "transaction_type originalTxn = Credit"
      and unflagged: "\<not> is_rollback originalTxn"
      and unref: "rollbacksReferencing s originalTransactionId = []"
  shows "processRollback s sessionToken transactionId originalTransactionId reason txnId =
           (Inl (CasinoError ''Payouts/credits cannot be rolled back''
                   ''CANNOT_ROLLBACK_PAYOUT'' 400), s)
       \<and> errorHandler (CasinoError ''Payouts/credits cannot be rolled back''
                   ''CANNOT_ROLLBACK_PAYOUT'' 400) =
           (400, JObj [(''success'', JBool False),
                       (''error'', JStr ''Payouts/credits cannot be rolled back''),
                       (''code'', JStr ''CANNOT_ROLLBACK_PAYOUT'')])"
  using assms by (simp add: processRollback_def error_body_def)

theorem rollback_of_credit_rejected_witness:
  "map_option transaction_type (getTransactionByExternalId simple_win ''t2'') = Some Credit
   \<and> map_option playable_balance (getWalletById simple_win ''w1'') = Some 11500
   \<and> processRollback simple_win ''tok'' ''r1'' ''t2'' None ''a3'' =
        (Inl (CasinoError ''Payouts/credits cannot be rolled back''
                ''CANNOT_ROLLBACK_PAYOUT'' 400), simple_win)
   \<and> errorHandler (CasinoError ''Payouts/credits cannot be rolled back''
                ''CANNOT_ROLLBACK_PAYOUT'' 400) =
        (400, JObj [(''success'', JBool False),
                    (''error'', JStr ''Payouts/credits cannot be rolled back''),
                    (''code'', JStr ''CANNOT_ROLLBACK_PAYOUT'')])"
proof -
  obtain c where orig: "getTransactionByExternalId simple_win ''t2'' = Some c"
    and kind: "transaction_type c = Credit" and unflagged: "\<not> is_rollback c"
    by (simp add: simple_win_def eval_defs)
  have fresh: "getTransactionByExternalId simple_win ''r1'' = None"
    by (simp add: simple_win_def eval_defs)
  have unref: "rollbacksReferencing simple_win ''t2'' = []"
    by (simp add: simple_win_def eval_defs)
  have bal: "map_option playable_balance (getWalletById simple_win ''w1'') = Some 11500"
    by (simp add: simple_win_def eval_defs)
  from rollback_of_credit_rejected[OF fresh orig kind unflagged unref, of "''tok''" None "''a3''"]
    orig kind bal
  show ?thesis by simp
qed





text \<open>
  Claim C10. A rollback whose own transaction id matches an existing ledger entry, of
  whatever kind (the hypothesis says nothing about it), is answered
  \<open>rolledBack = true\<close> with the already-processed message and the matched entry; the
  state is unchanged, so no entry is created and no balance moves.
\<close>

theorem rollback_own_id_replay:
  assumes "getTransactionByExternalId s transactionId = Some e"
  shows "\<exists>res.
      processRollback s sessionToken transactionId originalTransactionId reason txnId
        = (Inr res, s)
    \<and> rr_transaction res = Some e
    \<and> rolledBack res
    \<and> message res = ''Rollback already processed (idempotent response)''"
  using assms by (simp add: processRollback_def Let_def)

theorem rollback_own_id_replay_witness:
  "getTransactionByExternalId after_bet ''t1'' = Some bet_entry
   \<and> transaction_type bet_entry = Debit
   \<and> processRollback after_bet ''tok'' ''t1'' ''t0'' None ''a2'' =
     (Inr \<lparr>rr_transaction = Some bet_entry, rr_balance = 8000, rr_currency = ''USD'',
           rolledBack = True,
           message = ''Rollback already processed (idempotent response)''\<rparr>, after_bet)"
proof -
  have found: "getTransactionByExternalId after_bet ''t1'' = Some bet_entry"
    by (simp add: after_bet_def bet_entry_def eval_defs)
  have run: "processRollback after_bet ''tok'' ''t1'' ''t0'' None ''a2'' =
     (Inr \<lparr>rr_transaction = Some bet_entry, rr_balance = 8000, rr_currency = ''USD'',
           rolledBack = True,
           message = ''Rollback already processed (idempotent response)''\<rparr>, after_bet)"
    by (simp add: after_bet_def bet_entry_def eval_defs)
  from rollback_own_id_replay[OF found, of "''tok''" "''t0''" None "''a2''"] found run
  show ?thesis by (simp add: bet_entry_def)
qed

end
